theory Spec2Isabelle
  imports Main
begin

section \<open>Python strings\<close>

text \<open>
  The entity adapters of \<^verbatim>\<open>media_player.py\<close> work on Python strings. The operations
  they use are modelled on \<^typ>\<open>string\<close>: \<^verbatim>\<open>s.startswith(p)\<close>, the substring test
  \<^verbatim>\<open>sub in s\<close>, \<^verbatim>\<open>str(n)\<close> as it appears inside an f-string, \<^verbatim>\<open>s.split(c)\<close> for a
  separator of one character, and \<^verbatim>\<open>''.join(re.findall(r'\d', s))\<close>.
\<close>

fun startswith :: "string \<Rightarrow> string \<Rightarrow> bool" where
  "startswith s [] = True"
| "startswith [] (p # ps) = False"
| "startswith (c # cs) (p # ps) = (c = p \<and> startswith cs ps)"

fun str_in :: "string \<Rightarrow> string \<Rightarrow> bool" where
  "str_in sub [] = (sub = [])"
| "str_in sub (c # cs) = (startswith (c # cs) sub \<or> str_in sub cs)"

definition digit_char :: "nat \<Rightarrow> char" where
  "digit_char d = ''0123456789'' ! d"

fun str_nat :: "nat \<Rightarrow> string" where
  "str_nat n = (if n < 10 then [digit_char n] else str_nat (n div 10) @ [digit_char (n mod 10)])"

declare str_nat.simps [simp del]

definition str_int :: "int \<Rightarrow> string" where
  "str_int i = (if i < 0 then CHR ''-'' # str_nat (nat (- i)) else str_nat (nat i))"

definition is_digit :: "char \<Rightarrow> bool" where
  "is_digit c = (c \<in> set ''0123456789'')"

definition findall_digits :: "string \<Rightarrow> string" where
  "findall_digits s = filter is_digit s"

definition digit_val :: "char \<Rightarrow> int" where
  "digit_val c = int (of_char c) - 48"

fun split_on :: "char \<Rightarrow> string \<Rightarrow> string list" where
  "split_on c [] = [[]]"
| "split_on c (x # xs) =
     (if x = c then [] # split_on c xs
      else (case split_on c xs of [] \<Rightarrow> [[x]] | p # ps \<Rightarrow> (x # p) # ps))"

section \<open>The device models\<close>

text \<open>
  The records of the client library that the adapters read. Only the fields that the
  modelled functions touch are kept; volume and mute values play no part in them.
\<close>

record Stream =
  strm_id :: int
  strm_name :: string
  strm_type :: string

record SourceInfo =
  info_name :: "string option"
  info_track :: "string option"
  info_artist :: "string option"
  info_album :: "string option"
  info_station :: "string option"
  info_img_url :: "string option"
  info_state :: "string option"

record Source =
  src_id :: int
  src_name :: string
  src_input :: "string option"
  src_info :: "SourceInfo option"

record Zone =
  zone_id :: int
  zone_name :: string
  zone_source_id :: "int option"
  zone_disabled :: bool

record Group =
  grp_id :: int
  grp_name :: string
  grp_source_id :: "int option"
  grp_zones :: "int list"

record Status =
  st_sources :: "Source list"
  st_zones :: "Zone list"
  st_groups :: "Group list"
  st_streams :: "Stream list"

datatype error =
    IndexError
  | TypeError
  | ValueError
  | AttributeError
  | UnboundLocalError
  | ClientError
  | AllSourcesInUse

section \<open>Stream name normalizer\<close>

text \<open>
  \<^verbatim>\<open>process_stream_names\<close> walks the list and rewrites the name of every stream whose
  name does not contain the marker. The source mutates the records in place and returns
  the same list; the model returns the rewritten list.
\<close>

definition stream_prefix :: "Stream \<Rightarrow> string" where
  "stream_prefix s = ''AmpliPi Stream '' @ str_int (strm_id s) @ '': ''"

fun process_stream_names :: "Stream list \<Rightarrow> Stream list" where
  "process_stream_names [] = []"
| "process_stream_names (s # ss) =
     (if \<not> str_in ''AmpliPi Stream'' (strm_name s)
      then s\<lparr>strm_name := ''AmpliPi Stream '' @ str_int (strm_id s) @ '': '' @ strm_name s\<rparr>
      else s) # process_stream_names ss"

section \<open>Name and identifier codec\<close>

text \<open>
  \<^verbatim>\<open>extract_source_id_from_name\<close> joins every digit of the label, takes the first
  character of the joined string and subtracts one from its value. Indexing the empty
  string raises \<^verbatim>\<open>IndexError\<close>.
\<close>

definition extract_source_id_from_name :: "string \<Rightarrow> error + int" where
  "extract_source_id_from_name source =
     (case findall_digits source of
        [] \<Rightarrow> Inl IndexError
      | d # ds \<Rightarrow> Inr (digit_val d - 1))"

text \<open>
  \<^verbatim>\<open>AmpliPiSource.process_stream_id\<close> returns a string of digits, or \<^verbatim>\<open>None\<close> after
  writing an error to the log. The result carries the value and the lines logged.
\<close>

definition process_stream_id :: "string \<Rightarrow> error + (string option \<times> string list)" where
  "process_stream_id stream =
     (let processed = findall_digits stream in
      case processed of
        [] \<Rightarrow> Inl IndexError
      | d # ds \<Rightarrow>
          if digit_val d = 1 then Inr (Some (take 4 processed), [])
          else if digit_val d = 9 then Inr (Some (take 3 processed), [])
          else Inr (None, [''AmpliPiSource.process_stream_id() could not determine stream ID'']))"

section \<open>Image URL resolver\<close>

text \<open>
  \<^verbatim>\<open>validators.url\<close> belongs to a library outside the repository; \<open>url_ok\<close> stands for
  its verdict on a string.
\<close>

definition build_url :: "(string \<Rightarrow> bool) \<Rightarrow> string \<Rightarrow> string option \<Rightarrow> string option" where
  "build_url url_ok api_base_path img_url =
     (case img_url of
        None \<Rightarrow> None
      | Some u \<Rightarrow>
          if url_ok u then Some u
          else (let new_url = api_base_path @ ''/'' @ u in
                if url_ok new_url then Some new_url else None))"

text \<open>
  \<open>http_no_blank\<close> fills the validator's place in the closed examples of the entity
  updates, whose records carry no image path, so that it is never consulted there: a
  string passes when it starts with \<^verbatim>\<open>http://\<close> and holds no blank.
\<close>

definition http_no_blank :: "string \<Rightarrow> bool" where
  "http_no_blank s = (startswith s ''http://'' \<and> CHR '' '' \<notin> set s)"

text \<open>
  By default \<^verbatim>\<open>validators.url\<close> accepts a host name only when it is dotted (a domain
  with a top-level label), an IP address or \<^verbatim>\<open>localhost\<close>. \<open>http_dotted_host\<close> is a
  validator with this host rule for the closed examples of the resolver: the string
  starts with \<^verbatim>\<open>http://\<close>, holds no blank, and its host, the characters up to the
  next slash, holds a dot or is \<^verbatim>\<open>localhost\<close>.
\<close>

definition url_host :: "string \<Rightarrow> string" where
  "url_host s = takeWhile (\<lambda>c. c \<noteq> CHR ''/'') (drop 7 s)"

definition http_dotted_host :: "string \<Rightarrow> bool" where
  "http_dotted_host s =
     (startswith s ''http://'' \<and> CHR '' '' \<notin> set s
      \<and> (CHR ''.'' \<in> set (url_host s) \<or> url_host s = ''localhost''))"

text \<open>
  The builtin \<^verbatim>\<open>int\<close> is a parameter \<open>py_int\<close> of the functions that call it
  (\<open>None\<close> for \<^verbatim>\<open>ValueError\<close>). \<open>dec_int\<close> reads a non-empty string of digits and
  instantiates it in closed examples.
\<close>

definition dec_int :: "string \<Rightarrow> int option" where
  "dec_int s =
     (if s \<noteq> [] \<and> list_all is_digit s
      then Some (foldl (\<lambda>a c. 10 * a + digit_val c) 0 s) else None)"

section \<open>Playback state\<close>

datatype ha_state = STATE_UNKNOWN | STATE_IDLE | STATE_PLAYING | STATE_PAUSED

text \<open>
  The chain of \<^verbatim>\<open>elif\<close> tests shared by the three \<^verbatim>\<open>state\<close> properties. Each test is
  written \<^verbatim>\<open>x in ('paused')\<close>: the parentheses hold a string, not a tuple, so Python
  evaluates a substring test of \<^verbatim>\<open>x\<close> in the literal.
\<close>

definition state_of_info :: "string \<Rightarrow> ha_state" where
  "state_of_info st =
     (if str_in st ''paused'' then STATE_PAUSED
      else if str_in st ''playing'' then STATE_PLAYING
      else if str_in st ''stopped'' then STATE_IDLE
      else STATE_IDLE)"

record media =
  media_album_artist :: "string option"
  media_album_name :: "string option"
  media_title :: "string option"
  media_track :: "string option"
  app_name :: "string option"
  media_image_url :: "string option"
  media_channel :: "string option"

definition no_media :: media where
  "no_media = \<lparr>media_album_artist = None, media_album_name = None, media_title = None,
     media_track = None, app_name = None, media_image_url = None, media_channel = None\<rparr>"

section \<open>Source entity\<close>

record AmpliPiSource =
  s_streams :: "Stream list"
  s_id :: int
  s_current_stream :: "Stream option"
  s_image_base_path :: string
  s_zones :: "Zone list"
  s_groups :: "Group list"
  s_name :: string
  s_source :: "Source option"
  s_last_update_successful :: bool
  s_media :: media

definition AmpliPiSource_init :: "Source \<Rightarrow> Stream list \<Rightarrow> string \<Rightarrow> AmpliPiSource" where
  "AmpliPiSource_init source streams image_base_path =
     \<lparr>s_streams = process_stream_names streams,
      s_id = src_id source,
      s_current_stream = None,
      s_image_base_path = image_base_path,
      s_zones = [],
      s_groups = [],
      s_name = ''Source '' @ str_int (src_id source + 1),
      s_source = Some source,
      s_last_update_successful = False,
      s_media = no_media\<rparr>"

definition AmpliPiSource_state :: "AmpliPiSource \<Rightarrow> ha_state" where
  "AmpliPiSource_state e =
     (if \<not> s_last_update_successful e then STATE_UNKNOWN
      else case s_source e of
        None \<Rightarrow> STATE_IDLE
      | Some src \<Rightarrow>
          (case src_info src of
             None \<Rightarrow> STATE_IDLE
           | Some info \<Rightarrow>
               (case info_state info of
                  None \<Rightarrow> STATE_IDLE
                | Some st \<Rightarrow> state_of_info st)))"

definition AmpliPiSource_source_list :: "AmpliPiSource \<Rightarrow> string list" where
  "AmpliPiSource_source_list e =
     [''None''] @
     [strm_name stream. stream \<leftarrow> s_streams e,
        strm_id stream \<ge> 1000 \<or> strm_id stream - 996 = s_id e]"

text \<open>
  \<^verbatim>\<open>async_select_source\<close> ends in one call of \<^verbatim>\<open>_update_source\<close>, or in a warning and
  nothing else. The model returns which of the two happens, or the exception raised
  while the stream cache is searched.
\<close>

datatype select_outcome =
    Update_source string
  | Warned_no_match

fun find_stream_by_label :: "string \<Rightarrow> Stream list \<Rightarrow> error + Stream option" where
  "find_stream_by_label source [] = Inr None"
| "find_stream_by_label source (z # zs) =
     (case process_stream_id (strm_name z) of
        Inl err \<Rightarrow> Inl err
      | Inr (a, la) \<Rightarrow>
          (case process_stream_id source of
             Inl err \<Rightarrow> Inl err
           | Inr (b, lb) \<Rightarrow>
               if a = b then Inr (Some z) else find_stream_by_label source zs))"

definition AmpliPiSource_async_select_source :: "AmpliPiSource \<Rightarrow> string \<Rightarrow> error + select_outcome" where
  "AmpliPiSource_async_select_source e source =
     (if (case s_source e of None \<Rightarrow> False | Some src \<Rightarrow> src_name src = source)
      then Inr (Update_source ''local'')
      else if source = ''None'' then Inr (Update_source ''None'')
      else (case find_stream_by_label source (s_streams e) of
              Inl err \<Rightarrow> Inl err
            | Inr None \<Rightarrow> Inr Warned_no_match
            | Inr (Some stream) \<Rightarrow> Inr (Update_source (''stream='' @ str_int (strm_id stream)))))"

text \<open>
  \<^verbatim>\<open>sync_state\<close> replaces the cached view of the entity. It raises when the input
  descriptor is absent (\<^verbatim>\<open>'stream=' in None\<close>) or when \<^verbatim>\<open>int\<close> rejects the text after
  the equals sign; the model returns the exception, if any, with the entity as the
  assignments made so far leave it.
\<close>

definition media_of_source_info ::
  "(string \<Rightarrow> bool) \<Rightarrow> string \<Rightarrow> SourceInfo \<Rightarrow> Stream option \<Rightarrow> media" where
  "media_of_source_info url_ok image_base_path info current_stream =
     \<lparr>media_album_artist = info_artist info,
      media_album_name = info_album info,
      media_title = (case info_track info of None \<Rightarrow> info_name info | Some t \<Rightarrow> Some t),
      media_track = info_track info,
      app_name = (case current_stream of None \<Rightarrow> None | Some cs \<Rightarrow> Some (strm_type cs)),
      media_image_url = build_url url_ok image_base_path (info_img_url info),
      media_channel = info_station info\<rparr>"

definition AmpliPiSource_sync_state ::
  "(string \<Rightarrow> bool) \<Rightarrow> (string \<Rightarrow> int option) \<Rightarrow> AmpliPiSource \<Rightarrow> Source \<Rightarrow> Stream list \<Rightarrow>
     Zone list \<Rightarrow> Group list \<Rightarrow> error option \<times> AmpliPiSource" where
  "AmpliPiSource_sync_state url_ok py_int e state streams zones groups =
     (let e1 = e\<lparr>s_source := Some state, s_streams := process_stream_names streams,
                 s_current_stream := None\<rparr>;
          finish = (\<lambda>e2.
            let e3 = e2\<lparr>s_zones := zones, s_groups := groups,
                        s_last_update_successful := True, s_name := src_name state\<rparr>
            in (case src_info state of
                  Some info \<Rightarrow>
                    (None, e3\<lparr>s_media := media_of_source_info url_ok (s_image_base_path e3) info
                                             (s_current_stream e3)\<rparr>)
                | None \<Rightarrow> (None, e3\<lparr>s_media := no_media\<rparr>)))
      in case src_input state of
           None \<Rightarrow> (Some TypeError, e1)
         | Some inp \<Rightarrow>
             if str_in ''stream='' inp \<and> \<not> str_in ''stream=local'' inp
             then (case split_on CHR ''='' inp of
                     p0 # p1 # ps \<Rightarrow>
                       (case py_int p1 of
                          None \<Rightarrow> (Some ValueError, e1)
                        | Some stream_id \<Rightarrow>
                            finish (e1\<lparr>s_current_stream :=
                              find (\<lambda>z. strm_id z = stream_id) (s_streams e1)\<rparr>))
                   | _ \<Rightarrow> (Some IndexError, e1))
             else finish e1)"

text \<open>
  \<^verbatim>\<open>async_update\<close> takes the outcome of \<^verbatim>\<open>get_status\<close>: the snapshot, or the exception
  the client raised.
\<close>

definition AmpliPiSource_async_update ::
  "(string \<Rightarrow> bool) \<Rightarrow> (string \<Rightarrow> int option) \<Rightarrow> AmpliPiSource \<Rightarrow> error + Status \<Rightarrow>
     error option \<times> AmpliPiSource" where
  "AmpliPiSource_async_update url_ok py_int e fetched =
     (case s_source e of
        None \<Rightarrow> (Some AttributeError, e)
      | Some cur \<Rightarrow>
          (case fetched of
             Inl err \<Rightarrow> (None, e\<lparr>s_last_update_successful := False\<rparr>)
           | Inr state \<Rightarrow>
               (case find (\<lambda>z. src_id z = src_id cur) (st_sources state) of
                  None \<Rightarrow> (None, e\<lparr>s_last_update_successful := False\<rparr>)
                | Some source \<Rightarrow>
                    AmpliPiSource_sync_state url_ok py_int e source (st_streams state)
                      (filter (\<lambda>z. zone_source_id z = Some (src_id cur)) (st_zones state))
                      (filter (\<lambda>z. grp_source_id z = Some (src_id cur)) (st_groups state)))))"

section \<open>Stream entity\<close>

datatype stream_extra = Stream_extra_unset | Amplipi_source_id "int option"

record AmpliPiStream =
  t_stream :: "Stream option"
  t_current_source :: "Source option"
  t_current_zones :: "Zone list"
  t_current_groups :: "Group list"
  t_sources :: "Source list"
  t_id :: int
  t_name :: string
  t_image_base_path :: string
  t_last_update_successful :: bool
  t_available :: bool
  t_extra_attributes :: stream_extra
  t_media :: media

text \<open>
  The constructor normalizes the stream record in place before it reads the id and the
  name from it, so the entity's name is the normalized one.
\<close>

definition AmpliPiStream_init :: "Stream \<Rightarrow> Source list \<Rightarrow> string \<Rightarrow> AmpliPiStream" where
  "AmpliPiStream_init stream sources image_base_path =
     (let s = hd (process_stream_names [stream]) in
      \<lparr>t_stream = Some s,
       t_current_source = None,
       t_current_zones = [],
       t_current_groups = [],
       t_sources = sources,
       t_id = strm_id s,
       t_name = strm_name s,
       t_image_base_path = image_base_path,
       t_last_update_successful = False,
       t_available = False,
       t_extra_attributes = Stream_extra_unset,
       t_media = no_media\<rparr>)"

definition AmpliPiStream_get_extra_attributes :: "AmpliPiStream \<Rightarrow> AmpliPiStream" where
  "AmpliPiStream_get_extra_attributes e =
     (case t_current_source e of
        Some cs \<Rightarrow> e\<lparr>t_extra_attributes := Amplipi_source_id (Some (src_id cs))\<rparr>
      | None \<Rightarrow> e\<lparr>t_extra_attributes := Amplipi_source_id None\<rparr>)"

definition AmpliPiStream_update_available :: "AmpliPiStream \<Rightarrow> bool" where
  "AmpliPiStream_update_available e = (if t_stream e = None then False else True)"

definition AmpliPiStream_available :: "AmpliPiStream \<Rightarrow> bool" where
  "AmpliPiStream_available e = t_available e"

definition AmpliPiStream_sync_state ::
  "(string \<Rightarrow> bool) \<Rightarrow> AmpliPiStream \<Rightarrow> Stream \<Rightarrow> Source list \<Rightarrow> Source option \<Rightarrow>
     Zone list \<Rightarrow> Group list \<Rightarrow> AmpliPiStream" where
  "AmpliPiStream_sync_state url_ok e stream sources current_source zones groups =
     (let e1 = e\<lparr>t_stream := Some (hd (process_stream_names [stream])),
                 t_sources := sources,
                 t_current_source := current_source,
                 t_last_update_successful := True,
                 t_current_zones := zones,
                 t_current_groups := groups\<rparr>;
          info = (case t_current_source e1 of None \<Rightarrow> None | Some cs \<Rightarrow> src_info cs)
      in case info of
           Some i \<Rightarrow>
             e1\<lparr>t_media := (t_media e1)\<lparr>media_album_artist := info_artist i,
                  media_album_name := info_album i,
                  media_title := info_name i,
                  media_track := info_track i,
                  media_image_url := build_url url_ok (t_image_base_path e1) (info_img_url i),
                  media_channel := info_station i\<rparr>\<rparr>
         | None \<Rightarrow>
             e1\<lparr>t_media := (t_media e1)\<lparr>media_album_artist := None,
                  media_album_name := None,
                  media_title := None,
                  media_track := None,
                  media_image_url := None,
                  media_channel := None\<rparr>\<rparr>)"

text \<open>
  In \<^verbatim>\<open>async_update\<close> the local \<^verbatim>\<open>current_source\<close> is assigned only under
  \<^verbatim>\<open>if stream is not None\<close>. When the snapshot holds no stream with the entity's id, the
  \<^verbatim>\<open>try\<close> block ends normally, the extra attributes and the availability are stored, and
  reading \<^verbatim>\<open>current_source\<close> for the call of \<^verbatim>\<open>sync_state\<close> raises
  \<^verbatim>\<open>UnboundLocalError\<close>. The result is the exception that leaves the method, if any, and
  the entity afterwards.
\<close>

definition AmpliPiStream_async_update ::
  "(string \<Rightarrow> bool) \<Rightarrow> AmpliPiStream \<Rightarrow> error + Status \<Rightarrow> error option \<times> AmpliPiStream" where
  "AmpliPiStream_async_update url_ok e fetched =
     (case fetched of
        Inl err \<Rightarrow> (None, e\<lparr>t_last_update_successful := False\<rparr>)
      | Inr state \<Rightarrow>
          (let stream = find (\<lambda>s. strm_id s = t_id e) (st_streams state);
               e1 = AmpliPiStream_get_extra_attributes e;
               e2 = e1\<lparr>t_available := AmpliPiStream_update_available e1\<rparr>
           in case stream of
                None \<Rightarrow> (Some UnboundLocalError, e2)
              | Some s \<Rightarrow>
                  (let current_source =
                         find (\<lambda>src. src_input src = Some (''stream='' @ str_int (strm_id s)))
                           (st_sources state);
                       groups = (case current_source of
                                   None \<Rightarrow> []
                                 | Some cs \<Rightarrow>
                                     filter (\<lambda>g. grp_source_id g = Some (src_id cs)) (st_groups state));
                       zones = (case current_source of
                                  None \<Rightarrow> []
                                | Some cs \<Rightarrow>
                                    filter (\<lambda>z. zone_source_id z = Some (src_id cs)) (st_zones state))
                   in (None, AmpliPiStream_sync_state url_ok e2 s (st_sources state)
                               current_source zones groups))))"

definition AmpliPiStream_state :: "AmpliPiStream \<Rightarrow> ha_state" where
  "AmpliPiStream_state e =
     (if \<not> t_last_update_successful e then STATE_UNKNOWN
      else case t_current_source e of
        None \<Rightarrow> STATE_IDLE
      | Some cs \<Rightarrow>
          if src_id cs = - 1 then STATE_IDLE
          else (case src_info cs of
                  None \<Rightarrow> STATE_IDLE
                | Some info \<Rightarrow>
                    (case info_state info of
                       None \<Rightarrow> STATE_IDLE
                     | Some st \<Rightarrow> state_of_info st)))"

text \<open>
  \<^verbatim>\<open>find_source\<close> takes the outcome of \<^verbatim>\<open>get_sources\<close>. Its loop has no \<^verbatim>\<open>break\<close>: every
  free source overwrites the one adopted before. When an exception leaves the method
  the entity is as it was, so the error alone is returned.
\<close>

definition input_free :: "Source \<Rightarrow> bool" where
  "input_free source =
     (src_input source = Some [] \<or> src_input source = Some ''None'' \<or> src_input source = None)"

fun adopt_free :: "Source option \<Rightarrow> Source option list \<Rightarrow> Source option" where
  "adopt_free cur [] = cur"
| "adopt_free cur (source # sources) =
     adopt_free (case source of
                   Some s \<Rightarrow> if input_free s then Some s else cur
                 | None \<Rightarrow> cur) sources"

definition AmpliPiStream_find_source ::
  "AmpliPiStream \<Rightarrow> error + Source option list \<Rightarrow> error + AmpliPiStream" where
  "AmpliPiStream_find_source e fetched =
     (case t_current_source e of
        Some cs \<Rightarrow> Inr e
      | None \<Rightarrow>
          (case fetched of
             Inl err \<Rightarrow> Inl err
           | Inr sources \<Rightarrow>
               (let e1 = e\<lparr>t_current_source := adopt_free (t_current_source e) sources\<rparr>
                in if t_current_source e1 = None then Inl AllSourcesInUse else Inr e1)))"

section \<open>Zone and group entity\<close>

datatype zone_extra = Zone_extra_unset | Amplipi_zones "int list" | Amplipi_zone_id int

text \<open>
  One class serves zones and groups. \<^verbatim>\<open>async_select_source\<close>, which parks the chosen
  label in \<^verbatim>\<open>_current_source\<close> until the next sync, is not modelled, so the field holds
  a source record or nothing.
\<close>

record AmpliPiZone =
  z_current_source :: "Source option"
  z_sources :: "Source list"
  z_is_group :: bool
  z_id :: int
  z_name :: string
  z_streams :: "Stream list"
  z_image_base_path :: string
  z_zone :: "Zone option"
  z_group :: "Group option"
  z_enabled :: bool
  z_last_update_successful :: bool
  z_available :: bool
  z_extra_attributes :: zone_extra
  z_current_stream :: "Stream option"
  z_media :: media

definition AmpliPiZone_init ::
  "Zone option \<Rightarrow> Group option \<Rightarrow> Stream list \<Rightarrow> Source list \<Rightarrow> string \<Rightarrow> error + AmpliPiZone" where
  "AmpliPiZone_init zone grp streams sources image_base_path =
     (let build = (\<lambda>i n.
            \<lparr>z_current_source = None,
             z_sources = sources,
             z_is_group = (grp \<noteq> None),
             z_id = i,
             z_name = n,
             z_streams = process_stream_names streams,
             z_image_base_path = image_base_path,
             z_zone = zone,
             z_group = grp,
             z_enabled = False,
             z_last_update_successful = False,
             z_available = False,
             z_extra_attributes = Zone_extra_unset,
             z_current_stream = None,
             z_media = no_media\<rparr>)
      in case grp of
           Some g \<Rightarrow> Inr (build (grp_id g) (grp_name g))
         | None \<Rightarrow>
             (case zone of
                Some z \<Rightarrow> Inr (build (zone_id z) (zone_name z))
              | None \<Rightarrow> Inl AttributeError))"

text \<open>
  \<^verbatim>\<open>_get_extra_attributes\<close> and \<^verbatim>\<open>_update_available\<close> each fetch the status again; their
  parameter is the outcome of that fetch. A group entity uses it in both, a zone entity
  fetches in \<^verbatim>\<open>_update_available\<close> without reading the result. Both read the zone or group
  record that the entity holds when they are called.
\<close>

definition AmpliPiZone_get_extra_attributes :: "AmpliPiZone \<Rightarrow> error + Status \<Rightarrow> error + AmpliPiZone" where
  "AmpliPiZone_get_extra_attributes e fetched =
     (if z_is_group e then
        (case fetched of
           Inl err \<Rightarrow> Inl err
         | Inr state \<Rightarrow>
             (case z_group e of
                None \<Rightarrow> Inl AttributeError
              | Some g \<Rightarrow>
                  Inr (e\<lparr>z_extra_attributes := Amplipi_zones
                    (concat (map (\<lambda>zid.
                       concat (map (\<lambda>state_zone.
                         if zone_id state_zone = zid \<and> \<not> zone_disabled state_zone then [zid] else [])
                         (st_zones state)))
                       (grp_zones g)))\<rparr>)))
      else
        (case z_zone e of
           None \<Rightarrow> Inl AttributeError
         | Some z \<Rightarrow> Inr (e\<lparr>z_extra_attributes := Amplipi_zone_id (zone_id z)\<rparr>)))"

definition AmpliPiZone_update_available :: "AmpliPiZone \<Rightarrow> error + Status \<Rightarrow> error + bool" where
  "AmpliPiZone_update_available e fetched =
     (case fetched of
        Inl err \<Rightarrow> Inl err
      | Inr state \<Rightarrow>
          if z_is_group e then
            (case z_group e of
               None \<Rightarrow> Inl AttributeError
             | Some g \<Rightarrow>
                 Inr (list_ex (\<lambda>zid.
                        list_ex (\<lambda>state_zone. zone_id state_zone = zid \<and> \<not> zone_disabled state_zone)
                          (st_zones state))
                        (grp_zones g)))
          else
            (case z_zone e of
               None \<Rightarrow> Inr False
             | Some z \<Rightarrow> if zone_disabled z then Inr False else Inr True))"

definition AmpliPiZone_available :: "AmpliPiZone \<Rightarrow> bool" where
  "AmpliPiZone_available e = z_available e"

definition AmpliPiZone_set_media :: "(string \<Rightarrow> bool) \<Rightarrow> AmpliPiZone \<Rightarrow> SourceInfo option \<Rightarrow> AmpliPiZone" where
  "AmpliPiZone_set_media url_ok e info =
     (case info of
        Some i \<Rightarrow>
          e\<lparr>z_media := (z_media e)\<lparr>media_album_artist := info_artist i,
               media_album_name := info_album i,
               media_title := info_name i,
               media_track := info_track i,
               media_image_url := build_url url_ok (z_image_base_path e) (info_img_url i),
               media_channel := info_station i\<rparr>\<rparr>
      | None \<Rightarrow>
          e\<lparr>z_media := (z_media e)\<lparr>media_album_artist := None,
               media_album_name := None,
               media_title := None,
               media_track := None,
               media_image_url := None,
               media_channel := None\<rparr>\<rparr>)"

definition AmpliPiZone_sync_state ::
  "(string \<Rightarrow> bool) \<Rightarrow> (string \<Rightarrow> int option) \<Rightarrow> AmpliPiZone \<Rightarrow> Zone option \<Rightarrow> Group option \<Rightarrow>
     Stream list \<Rightarrow> Source list \<Rightarrow> bool \<Rightarrow> error option \<times> AmpliPiZone" where
  "AmpliPiZone_sync_state url_ok py_int e zone grp streams sources enabled =
     (let e1 = e\<lparr>z_zone := zone, z_group := grp,
                 z_streams := process_stream_names streams,
                 z_sources := sources,
                 z_last_update_successful := True,
                 z_enabled := enabled,
                 z_current_source := None\<rparr>;
          attach = (\<lambda>e2.
            let info = (case z_current_source e2 of None \<Rightarrow> None | Some cs \<Rightarrow> src_info cs)
            in case z_current_source e2 of
                 None \<Rightarrow> (None, AmpliPiZone_set_media url_ok e2 info)
               | Some cs \<Rightarrow>
                   (case src_input cs of
                      None \<Rightarrow> (Some TypeError, e2)
                    | Some inp \<Rightarrow>
                        if str_in ''stream='' inp \<and> \<not> str_in ''stream=local'' inp
                        then (case split_on CHR ''='' inp of
                                p0 # p1 # ps \<Rightarrow>
                                  (case py_int p1 of
                                     None \<Rightarrow> (Some ValueError, e2)
                                   | Some stream_id \<Rightarrow>
                                       (None, AmpliPiZone_set_media url_ok
                                          (e2\<lparr>z_current_stream :=
                                             find (\<lambda>z. strm_id z = stream_id) (z_streams e2)\<rparr>) info))
                              | _ \<Rightarrow> (Some IndexError, e2))
                        else (None, AmpliPiZone_set_media url_ok e2 info)))
      in if z_is_group e1 then
           (case z_group e1 of
              None \<Rightarrow> (Some AttributeError, e1)
            | Some g \<Rightarrow>
                attach (e1\<lparr>z_current_source :=
                  find (\<lambda>s. grp_source_id g = Some (src_id s)) sources\<rparr>))
         else
           (case z_zone e1 of
              None \<Rightarrow> (Some AttributeError, e1)
            | Some z \<Rightarrow>
                if zone_source_id z \<noteq> None
                then attach (e1\<lparr>z_current_source :=
                       find (\<lambda>s. zone_source_id z = Some (src_id s)) sources\<rparr>)
                else attach e1))"

text \<open>
  \<^verbatim>\<open>async_update\<close> takes the outcomes of its three fetches in the order they are made:
  the one inside \<^verbatim>\<open>try\<close>, the one of \<^verbatim>\<open>_get_extra_attributes\<close> and the one of
  \<^verbatim>\<open>_update_available\<close>. The availability is computed and stored before \<^verbatim>\<open>sync_state\<close>
  replaces the zone and group records.
\<close>

definition AmpliPiZone_async_update ::
  "(string \<Rightarrow> bool) \<Rightarrow> (string \<Rightarrow> int option) \<Rightarrow> AmpliPiZone \<Rightarrow>
     error + Status \<Rightarrow> error + Status \<Rightarrow> error + Status \<Rightarrow> error option \<times> AmpliPiZone" where
  "AmpliPiZone_async_update url_ok py_int e fetched fetched_extra fetched_available =
     (case fetched of
        Inl err \<Rightarrow> (None, e\<lparr>z_last_update_successful := False\<rparr>)
      | Inr state \<Rightarrow>
          (let found =
                 (if z_is_group e then
                    (case find (\<lambda>z. grp_id z = z_id e) (st_groups state) of
                       None \<Rightarrow> None
                     | Some grp \<Rightarrow>
                         Some (None, Some grp,
                           find (\<lambda>z. zone_id z \<in> set (grp_zones grp)) (st_zones state) \<noteq> None))
                  else
                    (case find (\<lambda>z. zone_id z = z_id e) (st_zones state) of
                       None \<Rightarrow> None
                     | Some zone \<Rightarrow> Some (Some zone, None, \<not> zone_disabled zone)))
           in case found of
                None \<Rightarrow> (None, e\<lparr>z_last_update_successful := False\<rparr>)
              | Some (zone, grp, enabled) \<Rightarrow>
                  (case AmpliPiZone_get_extra_attributes e fetched_extra of
                     Inl err \<Rightarrow> (Some err, e)
                   | Inr e1 \<Rightarrow>
                       (case AmpliPiZone_update_available e1 fetched_available of
                          Inl err \<Rightarrow> (Some err, e1)
                        | Inr a \<Rightarrow>
                            AmpliPiZone_sync_state url_ok py_int (e1\<lparr>z_available := a\<rparr>)
                              zone grp (st_streams state) (st_sources state) enabled))))"

definition AmpliPiZone_state :: "AmpliPiZone \<Rightarrow> ha_state" where
  "AmpliPiZone_state e =
     (if \<not> z_last_update_successful e then STATE_UNKNOWN
      else case z_current_source e of
        None \<Rightarrow> STATE_IDLE
      | Some cs \<Rightarrow>
          (case src_info cs of
             None \<Rightarrow> STATE_IDLE
           | Some info \<Rightarrow>
               (case info_state info of
                  None \<Rightarrow> STATE_IDLE
                | Some st \<Rightarrow> state_of_info st)))"

section \<open>Example values\<close>

text \<open>The snapshots and records that the closed examples below are evaluated on.\<close>

definition info_with_state :: "string option \<Rightarrow> SourceInfo" where
  "info_with_state st = \<lparr>info_name = None, info_track = None, info_artist = None,
     info_album = None, info_station = None, info_img_url = None, info_state = st\<rparr>"

definition radio :: Stream where
  "radio = \<lparr>strm_id = 1000, strm_name = ''Radio'', strm_type = ''internetradio''\<rparr>"

definition input_1 :: "string option \<Rightarrow> Source" where
  "input_1 st = \<lparr>src_id = 0, src_name = ''Input 1'', src_input = Some ''stream=1000'',
     src_info = Some (info_with_state st)\<rparr>"

definition four_streams :: "Stream list" where
  "four_streams =
     [\<lparr>strm_id = 996, strm_name = ''AmpliPi Stream 996: Input 1'', strm_type = ''rca''\<rparr>,
      \<lparr>strm_id = 997, strm_name = ''AmpliPi Stream 997: Input 2'', strm_type = ''rca''\<rparr>,
      \<lparr>strm_id = 1000, strm_name = ''AmpliPi Stream 1000: Radio'', strm_type = ''internetradio''\<rparr>,
      \<lparr>strm_id = 500, strm_name = ''AmpliPi Stream 500: Old'', strm_type = ''file''\<rparr>]"

definition idle_source :: "int \<Rightarrow> Source" where
  "idle_source i = \<lparr>src_id = i, src_name = ''Input'', src_input = Some ''None'', src_info = None\<rparr>"

definition local_source :: Source where
  "local_source = \<lparr>src_id = 0, src_name = ''Input 1'', src_input = Some ''local'', src_info = None\<rparr>"

definition radio_entity :: AmpliPiStream where
  "radio_entity = AmpliPiStream_init radio [] ''http://amplipi.local''"

definition status_playing :: Status where
  "status_playing = \<lparr>st_sources = [input_1 (Some ''playing'')], st_zones = [], st_groups = [],
     st_streams = [radio]\<rparr>"

definition status_stream_gone :: Status where
  "status_stream_gone = \<lparr>st_sources = [input_1 (Some ''playing'')], st_zones = [], st_groups = [],
     st_streams = []\<rparr>"

definition status_unattached :: Status where
  "status_unattached = \<lparr>st_sources = [local_source], st_zones = [], st_groups = [],
     st_streams = [radio]\<rparr>"


definition kitchen :: "bool \<Rightarrow> Zone" where
  "kitchen d = \<lparr>zone_id = 0, zone_name = ''Kitchen'', zone_source_id = None, zone_disabled = d\<rparr>"


definition downstairs :: Group where
  "downstairs = \<lparr>grp_id = 100, grp_name = ''Downstairs'', grp_source_id = None, grp_zones = [0, 1]\<rparr>"

definition zones_status :: "Zone list \<Rightarrow> Status" where
  "zones_status zs = \<lparr>st_sources = [], st_zones = zs, st_groups = [downstairs], st_streams = []\<rparr>"

definition kitchen_entity :: AmpliPiZone where
  "kitchen_entity = projr (AmpliPiZone_init (Some (kitchen False)) None [] [] ''http://amplipi.local'')"



section \<open>Properties of the string operations\<close>

lemma startswith_append: "startswith (p @ s) p"
  by (induction p) simp_all

lemma str_in_startswith: "startswith s sub \<Longrightarrow> str_in sub s"
  by (cases s) (auto elim: startswith.elims)

lemma str_in_append_left: "str_in sub (sub @ s)"
  by (rule str_in_startswith) (rule startswith_append)

lemma marker_in_prefixed:
  "str_in ''AmpliPi Stream'' (''AmpliPi Stream '' @ k @ '': '' @ n)"
proof -
  have "str_in ''AmpliPi Stream'' (''AmpliPi Stream'' @ ('' '' @ k @ '': '' @ n))"
    by (rule str_in_append_left)
  then show ?thesis by simp
qed

section \<open>Properties of the stream name normalizer\<close>

lemma process_stream_names_marker:
  "list_all (\<lambda>s. str_in ''AmpliPi Stream'' (strm_name s)) (process_stream_names ss)"
  by (induction ss) (simp_all add: marker_in_prefixed)

lemma process_stream_names_fixed:
  "list_all (\<lambda>s. str_in ''AmpliPi Stream'' (strm_name s)) ss \<Longrightarrow> process_stream_names ss = ss"
  by (induction ss) simp_all

lemma process_stream_names_twice:
  "process_stream_names (process_stream_names ss) = process_stream_names ss"
  by (rule process_stream_names_fixed) (rule process_stream_names_marker)

lemma process_stream_names_funpow:
  "(process_stream_names ^^ Suc n) ss = process_stream_names ss"
  by (induction n) (simp_all add: process_stream_names_twice)

lemma process_stream_names_names:
  "map strm_name (process_stream_names ss) =
     map (\<lambda>s. if str_in ''AmpliPi Stream'' (strm_name s) then strm_name s
               else stream_prefix s @ strm_name s) ss"
  by (induction ss) (simp_all add: stream_prefix_def)

lemmas eval_strings =
  str_int_def str_nat.simps digit_char_def findall_digits_def is_digit_def digit_val_def

lemma radio_prefix: "stream_prefix radio = ''AmpliPi Stream 1000: ''"
  by (simp add: radio_def stream_prefix_def eval_strings)

lemma radio_plain: "\<not> str_in ''AmpliPi Stream'' (strm_name radio)"
  by (simp add: radio_def)

text \<open>
  C5 (as amended). The normalizer is idempotent: a second run, and any further run,
  changes nothing. After one run every name contains the marker \<^verbatim>\<open>AmpliPi Stream\<close>;
  a name that lacked the marker is the prefix \<^verbatim>\<open>AmpliPi Stream {id}: \<close> followed by the
  old name, and a name that already held the marker is left as it was.
\<close>

theorem process_stream_names_idempotent:
  "process_stream_names (process_stream_names ss) = process_stream_names ss
   \<and> (process_stream_names ^^ Suc n) ss = process_stream_names ss
   \<and> list_all (\<lambda>s. str_in ''AmpliPi Stream'' (strm_name s)) (process_stream_names ss)
   \<and> map strm_name (process_stream_names ss) =
       map (\<lambda>s. if str_in ''AmpliPi Stream'' (strm_name s) then strm_name s
                 else stream_prefix s @ strm_name s) ss"
proof (intro conjI)
  show "process_stream_names (process_stream_names ss) = process_stream_names ss"
    by (rule process_stream_names_twice)
  show "(process_stream_names ^^ Suc n) ss = process_stream_names ss"
    by (rule process_stream_names_funpow)
  show "list_all (\<lambda>s. str_in ''AmpliPi Stream'' (strm_name s)) (process_stream_names ss)"
    by (rule process_stream_names_marker)
  show "map strm_name (process_stream_names ss) =
       map (\<lambda>s. if str_in ''AmpliPi Stream'' (strm_name s) then strm_name s
                 else stream_prefix s @ strm_name s) ss"
    by (rule process_stream_names_names)
qed

theorem process_stream_names_idempotent_witness:
  "process_stream_names (process_stream_names [radio]) = process_stream_names [radio]
   \<and> (process_stream_names ^^ Suc 2) [radio] = process_stream_names [radio]
   \<and> map strm_name (process_stream_names [radio]) = [''AmpliPi Stream 1000: Radio'']"
proof -
  note t = process_stream_names_idempotent [of "[radio]" 2]
  have "map strm_name (process_stream_names [radio]) = [''AmpliPi Stream 1000: Radio'']"
    using t radio_plain radio_prefix by (simp add: radio_def)
  with t show ?thesis by blast
qed

text \<open>
  C5 as stated fails: a stream number 7 named \<^verbatim>\<open>My AmpliPi Stream\<close> holds the marker, so
  the guard leaves it alone, and its name does not carry \<^verbatim>\<open>AmpliPi Stream 7:\<close> anywhere.
\<close>

theorem process_stream_names_prefix_counterexample:
  "map strm_name (process_stream_names
      [\<lparr>strm_id = 7, strm_name = ''My AmpliPi Stream'', strm_type = ''pandora''\<rparr>]) =
     [''My AmpliPi Stream'']
   \<and> \<not> str_in (''AmpliPi Stream '' @ str_int 7 @ '':'') ''My AmpliPi Stream''"
  by (simp add: eval_strings)

section \<open>Properties of the codec\<close>

lemma findall_digits_first:
  "list_all (\<lambda>c. \<not> is_digit c) pre \<Longrightarrow> is_digit d \<Longrightarrow>
     findall_digits (pre @ d # post) = d # findall_digits post"
  by (induction pre) (simp_all add: findall_digits_def)

lemma digit_val_1: "is_digit d \<Longrightarrow> (digit_val d = 1) = (d = CHR ''1'')"
  by (auto simp: is_digit_def digit_val_def)

lemma digit_val_9: "is_digit d \<Longrightarrow> (digit_val d = 9) = (d = CHR ''9'')"
  by (auto simp: is_digit_def digit_val_def)

text \<open>
  C6 (as amended). For a label whose first digit is \<open>d\<close>,
  \<^verbatim>\<open>extract_source_id_from_name\<close> returns the value of that one digit minus one, whatever
  follows it. \<^verbatim>\<open>process_stream_id\<close> joins all digits of the label and returns, as a
  string of digits, the first four of them when \<open>d\<close> is 1 and the first three when \<open>d\<close>
  is 9; for any other first digit it logs an error and returns \<^verbatim>\<open>None\<close>. What happens to
  a label without a digit is not part of the statement.
\<close>

theorem codec_first_digit:
  assumes "label = pre @ d # post" and "list_all (\<lambda>c. \<not> is_digit c) pre" and "is_digit d"
  shows "extract_source_id_from_name label = Inr (digit_val d - 1)
     \<and> process_stream_id label =
        (if d = CHR ''1'' then Inr (Some (take 4 (d # findall_digits post)), [])
         else if d = CHR ''9'' then Inr (Some (take 3 (d # findall_digits post)), [])
         else Inr (None, [''AmpliPiSource.process_stream_id() could not determine stream ID'']))"
proof -
  have digits: "findall_digits label = d # findall_digits post"
    using assms by (simp add: findall_digits_first)
  have first: "extract_source_id_from_name label = Inr (digit_val d - 1)"
    by (simp add: extract_source_id_from_name_def digits)
  have second: "process_stream_id label =
        (if d = CHR ''1'' then Inr (Some (take 4 (d # findall_digits post)), [])
         else if d = CHR ''9'' then Inr (Some (take 3 (d # findall_digits post)), [])
         else Inr (None, [''AmpliPiSource.process_stream_id() could not determine stream ID'']))"
    using assms(3) by (simp add: process_stream_id_def digits digit_val_1 digit_val_9 Let_def)
  from first second show ?thesis by simp
qed

theorem codec_first_digit_witness:
  "extract_source_id_from_name ''Source 3'' = Inr 2
   \<and> process_stream_id ''AmpliPi Stream 1001: Radio'' = Inr (Some ''1001'', [])"
proof -
  have a: "list_all (\<lambda>c. \<not> is_digit c) ''Source ''" by (simp add: is_digit_def)
  have b: "is_digit CHR ''3''" by (simp add: is_digit_def)
  have c: "list_all (\<lambda>c. \<not> is_digit c) ''AmpliPi Stream ''" by (simp add: is_digit_def)
  have d: "is_digit CHR ''1''" by (simp add: is_digit_def)
  have "extract_source_id_from_name ''Source 3'' = Inr 2"
    using codec_first_digit [of "''Source 3''" "''Source ''" "CHR ''3''" "[]", OF _ a b]
    by (simp add: digit_val_def)
  moreover have "process_stream_id ''AmpliPi Stream 1001: Radio'' = Inr (Some ''1001'', [])"
    using codec_first_digit [of "''AmpliPi Stream 1001: Radio''" "''AmpliPi Stream ''" "CHR ''1''"
      "''001: Radio''", OF _ c d]
    by (simp add: findall_digits_def is_digit_def)
  ultimately show ?thesis by simp
qed

text \<open>
  C6 as stated fails. The first digit group of \<^verbatim>\<open>Source 12\<close> is 12, and the codec
  returns 0, the first digit minus one. The stream label \<^verbatim>\<open>AmpliPi Stream 2000: Jazz\<close>
  has digits, and the codec returns \<^verbatim>\<open>None\<close>, not the stream id.
\<close>

theorem codec_digit_group_counterexample:
  "extract_source_id_from_name ''Source 12'' = Inr 0
   \<and> process_stream_id ''AmpliPi Stream 2000: Jazz'' =
       Inr (None, [''AmpliPiSource.process_stream_id() could not determine stream ID''])"
  by (simp add: extract_source_id_from_name_def process_stream_id_def eval_strings)

section \<open>Selecting a source by label\<close>

text \<open>
  C7. A source entity caches the stream \<^verbatim>\<open>AmpliPi Stream 1000: Radio\<close>. The label
  \<^verbatim>\<open>Radio\<close> is not the source's name, is not \<^verbatim>\<open>None\<close> and names no cached stream by its
  digits, yet \<^verbatim>\<open>async_select_source\<close> does not end in the warning: indexing the empty
  digit string of the label raises \<^verbatim>\<open>IndexError\<close>.
\<close>

theorem select_source_label_without_digit_raises:
  "AmpliPiSource_async_select_source
     (AmpliPiSource_init (input_1 None) [radio] ''http://amplipi.local'') ''Radio'' = Inl IndexError"
  by (simp add: AmpliPiSource_async_select_source_def AmpliPiSource_init_def input_1_def radio_def
      process_stream_id_def eval_strings)

section \<open>Properties of the image URL resolver\<close>

lemma joined_differs: "base @ ''/'' @ img \<noteq> img"
proof
  assume "base @ ''/'' @ img = img"
  then have "length (base @ ''/'' @ img) = length img" by simp
  then show False by simp
qed

lemma build_url_none: "build_url url_ok base None = None"
  by (simp add: build_url_def)

lemma build_url_accepted: "url_ok img \<Longrightarrow> build_url url_ok base (Some img) = Some img"
  by (simp add: build_url_def)

lemma build_url_joined:
  "\<not> url_ok img \<Longrightarrow> url_ok (base @ ''/'' @ img) \<Longrightarrow>
     build_url url_ok base (Some img) = Some (base @ ''/'' @ img)"
  by (simp add: build_url_def Let_def)

lemma build_url_rejected:
  "\<not> url_ok img \<Longrightarrow> \<not> url_ok (base @ ''/'' @ img) \<Longrightarrow> build_url url_ok base (Some img) = None"
  by (simp add: build_url_def Let_def)

lemma build_url_result_accepted: "build_url url_ok base opt = Some r \<Longrightarrow> url_ok r"
  by (cases opt) (auto simp: build_url_def Let_def split: if_splits)

lemma build_url_unchanged_iff:
  "(build_url url_ok base (Some img) = Some img) = url_ok img"
  using joined_differs [of base img] by (auto simp: build_url_def Let_def)

lemma build_url_joined_iff:
  "(build_url url_ok base (Some img) = Some (base @ ''/'' @ img)) =
     (\<not> url_ok img \<and> url_ok (base @ ''/'' @ img))"
  using joined_differs [of base img] by (auto simp: build_url_def Let_def)

lemma build_url_absent_iff:
  "(build_url url_ok base (Some img) = None) = (\<not> url_ok img \<and> \<not> url_ok (base @ ''/'' @ img))"
  by (auto simp: build_url_def Let_def)

text \<open>
  C8 (as amended). \<^verbatim>\<open>build_url\<close> returns nothing for an absent image path; it returns
  the path itself when the validator accepts it; otherwise it returns base, a slash and
  the path when the validator accepts that, and nothing when it does not. Whatever it
  returns has been accepted by the validator. The path \<^verbatim>\<open>http://x/y\<close> comes back
  unchanged exactly when the validator accepts it; \<^verbatim>\<open>art.jpg\<close> under the base
  \<^verbatim>\<open>http://host/api\<close> resolves to \<^verbatim>\<open>http://host/api/art.jpg\<close> exactly when the
  validator rejects \<^verbatim>\<open>art.jpg\<close> and accepts \<^verbatim>\<open>http://host/api/art.jpg\<close>; and
  \<^verbatim>\<open>not a url\<close> under the base \<^verbatim>\<open>not a base\<close> resolves to nothing exactly when
  the validator rejects both \<^verbatim>\<open>not a url\<close> and \<^verbatim>\<open>not a base/not a url\<close>.
\<close>

theorem build_url_by_validator:
  "build_url url_ok base None = None
   \<and> (url_ok img \<longrightarrow> build_url url_ok base (Some img) = Some img)
   \<and> (\<not> url_ok img \<and> url_ok (base @ ''/'' @ img) \<longrightarrow>
        build_url url_ok base (Some img) = Some (base @ ''/'' @ img))
   \<and> (\<not> url_ok img \<and> \<not> url_ok (base @ ''/'' @ img) \<longrightarrow> build_url url_ok base (Some img) = None)
   \<and> (\<forall>r. build_url url_ok base opt = Some r \<longrightarrow> url_ok r)
   \<and> (build_url url_ok base (Some ''http://x/y'') = Some ''http://x/y'') = url_ok ''http://x/y''
   \<and> (build_url url_ok ''http://host/api'' (Some ''art.jpg'') = Some ''http://host/api/art.jpg'') =
        (\<not> url_ok ''art.jpg'' \<and> url_ok ''http://host/api/art.jpg'')
   \<and> (build_url url_ok ''not a base'' (Some ''not a url'') = None) =
        (\<not> url_ok ''not a url'' \<and> \<not> url_ok ''not a base/not a url'')"
proof (intro conjI)
  show "build_url url_ok base None = None"
    by (rule build_url_none)
  show "url_ok img \<longrightarrow> build_url url_ok base (Some img) = Some img"
    by (simp add: build_url_accepted)
  show "\<not> url_ok img \<and> url_ok (base @ ''/'' @ img) \<longrightarrow>
        build_url url_ok base (Some img) = Some (base @ ''/'' @ img)"
    by (simp add: build_url_joined)
  show "\<not> url_ok img \<and> \<not> url_ok (base @ ''/'' @ img) \<longrightarrow> build_url url_ok base (Some img) = None"
    by (simp add: build_url_rejected)
  show "\<forall>r. build_url url_ok base opt = Some r \<longrightarrow> url_ok r"
    by (blast intro: build_url_result_accepted)
  show "(build_url url_ok base (Some ''http://x/y'') = Some ''http://x/y'') = url_ok ''http://x/y''"
    by (rule build_url_unchanged_iff)
  show "(build_url url_ok ''http://host/api'' (Some ''art.jpg'') = Some ''http://host/api/art.jpg'') =
        (\<not> url_ok ''art.jpg'' \<and> url_ok ''http://host/api/art.jpg'')"
    using build_url_joined_iff [of url_ok "''http://host/api''" "''art.jpg''"] by simp
  show "(build_url url_ok ''not a base'' (Some ''not a url'') = None) =
        (\<not> url_ok ''not a url'' \<and> \<not> url_ok ''not a base/not a url'')"
    using build_url_absent_iff [of url_ok "''not a base''" "''not a url''"] by simp
qed

lemma dotted_ok_full: "http_dotted_host ''http://amplipi.local/static/imgs/radio.png''"
  by (simp add: http_dotted_host_def url_host_def)

lemma dotted_not_ok_relative: "\<not> http_dotted_host ''static/imgs/radio.png''"
  by (simp add: http_dotted_host_def)

lemma dotted_ok_joined:
  "http_dotted_host (''http://amplipi.local'' @ ''/'' @ ''static/imgs/radio.png'')"
  by (simp add: http_dotted_host_def url_host_def)

lemma dotted_not_ok_blank: "\<not> http_dotted_host ''not a url''"
  by (simp add: http_dotted_host_def)

lemma dotted_not_ok_blank_joined: "\<not> http_dotted_host (''not a base'' @ ''/'' @ ''not a url'')"
  by (simp add: http_dotted_host_def)

theorem build_url_by_validator_witness:
  "build_url http_dotted_host ''http://amplipi.local'' None = None
   \<and> build_url http_dotted_host ''http://amplipi.local''
        (Some ''http://amplipi.local/static/imgs/radio.png'') =
      Some ''http://amplipi.local/static/imgs/radio.png''
   \<and> build_url http_dotted_host ''http://amplipi.local'' (Some ''static/imgs/radio.png'') =
      Some ''http://amplipi.local/static/imgs/radio.png''
   \<and> build_url http_dotted_host ''not a base'' (Some ''not a url'') = None
   \<and> http_dotted_host ''http://amplipi.local/static/imgs/radio.png''"
proof -
  have 1: "build_url http_dotted_host ''http://amplipi.local'' None = None"
    using build_url_by_validator [where url_ok = http_dotted_host
        and base = "''http://amplipi.local''"] by blast
  have 2: "build_url http_dotted_host ''http://amplipi.local''
        (Some ''http://amplipi.local/static/imgs/radio.png'') =
      Some ''http://amplipi.local/static/imgs/radio.png''"
    using build_url_by_validator [where url_ok = http_dotted_host
        and base = "''http://amplipi.local''"
        and img = "''http://amplipi.local/static/imgs/radio.png''"] dotted_ok_full
    by blast
  have "build_url http_dotted_host ''http://amplipi.local'' (Some ''static/imgs/radio.png'') =
      Some (''http://amplipi.local'' @ ''/'' @ ''static/imgs/radio.png'')"
    using build_url_by_validator [where url_ok = http_dotted_host
        and base = "''http://amplipi.local''" and img = "''static/imgs/radio.png''"]
      dotted_not_ok_relative dotted_ok_joined
    by blast
  then have 3: "build_url http_dotted_host ''http://amplipi.local'' (Some ''static/imgs/radio.png'') =
      Some ''http://amplipi.local/static/imgs/radio.png''"
    by simp
  have 4: "build_url http_dotted_host ''not a base'' (Some ''not a url'') = None"
    using build_url_by_validator [where url_ok = http_dotted_host
        and base = "''not a base''" and img = "''not a url''"]
      dotted_not_ok_blank dotted_not_ok_blank_joined
    by blast
  have 5: "http_dotted_host ''http://amplipi.local/static/imgs/radio.png''"
    using build_url_by_validator [where url_ok = http_dotted_host
        and base = "''http://amplipi.local''"
        and opt = "Some ''http://amplipi.local/static/imgs/radio.png''"] 2
    by blast
  from 1 2 3 4 5 show ?thesis by blast
qed

text \<open>
  C8 as stated fails. Under a validator with the host rule of \<^verbatim>\<open>validators.url\<close> the
  hosts \<^verbatim>\<open>x\<close> and \<^verbatim>\<open>host\<close> are not accepted: \<^verbatim>\<open>http://x/y\<close> does not come back
  unchanged and \<^verbatim>\<open>art.jpg\<close> under the base \<^verbatim>\<open>http://host/api\<close> does not resolve to
  \<^verbatim>\<open>http://host/api/art.jpg\<close>; both resolve to nothing.
\<close>

theorem build_url_dotless_host_counterexample:
  "build_url http_dotted_host ''http://host/api'' (Some ''http://x/y'') \<noteq> Some ''http://x/y''
   \<and> build_url http_dotted_host ''http://host/api'' (Some ''http://x/y'') = None
   \<and> build_url http_dotted_host ''http://host/api'' (Some ''art.jpg'') \<noteq> Some ''http://host/api/art.jpg''
   \<and> build_url http_dotted_host ''http://host/api'' (Some ''art.jpg'') = None"
  by (simp add: build_url_def http_dotted_host_def url_host_def Let_def)

section \<open>Properties of the source list\<close>

lemma offered_iff:
  "(1000 \<le> strm_id s \<or> strm_id s - 996 = i) = (1000 \<le> strm_id s \<or> strm_id s = 996 + i)"
  by auto

lemma comprehension_map_filter:
  "concat (map (\<lambda>x. if P x then [f x] else []) xs) = map f (filter P xs)"
  by (induction xs) simp_all

lemma source_list_unfold:
  "AmpliPiSource_source_list e =
     ''None'' # map strm_name (filter (\<lambda>s. 1000 \<le> strm_id s \<or> strm_id s = 996 + s_id e) (s_streams e))"
  by (simp add: AmpliPiSource_source_list_def offered_iff comprehension_map_filter)

text \<open>
  C10. The source list of a source entity starts with \<^verbatim>\<open>None\<close>; the rest are the names
  of the cached streams, in order, whose id is at least 1000 or equal to 996 plus the
  source's id. Of these, the ones below 1000 are the streams whose id is 996 plus the
  id of this source.
\<close>

theorem source_list_contents:
  "hd (AmpliPiSource_source_list e) = ''None''
   \<and> tl (AmpliPiSource_source_list e) =
       map strm_name (filter (\<lambda>s. 1000 \<le> strm_id s \<or> strm_id s = 996 + s_id e) (s_streams e))
   \<and> map strm_name (filter (\<lambda>s. strm_id s < 1000) (filter (\<lambda>s. 1000 \<le> strm_id s \<or> strm_id s = 996 + s_id e) (s_streams e))) =
       map strm_name (filter (\<lambda>s. strm_id s = 996 + s_id e \<and> s_id e < 4) (s_streams e))"
proof -
  have "filter (\<lambda>s. strm_id s < 1000)
          (filter (\<lambda>s. 1000 \<le> strm_id s \<or> strm_id s = 996 + s_id e) (s_streams e)) =
        filter (\<lambda>s. strm_id s = 996 + s_id e \<and> s_id e < 4) (s_streams e)"
    unfolding filter_filter by (rule filter_cong) auto
  then show ?thesis
    by (simp add: source_list_unfold)
qed

theorem source_list_contents_witness:
  "AmpliPiSource_source_list
     (AmpliPiSource_init \<lparr>src_id = 1, src_name = ''Input 2'', src_input = Some ''local'', src_info = None\<rparr>
        four_streams ''http://amplipi.local'') =
     [''None'', ''AmpliPi Stream 997: Input 2'', ''AmpliPi Stream 1000: Radio'']"
proof -
  let ?e = "AmpliPiSource_init \<lparr>src_id = 1, src_name = ''Input 2'', src_input = Some ''local'', src_info = None\<rparr>
        four_streams ''http://amplipi.local''"
  have streams: "s_streams ?e = four_streams"
    by (simp add: AmpliPiSource_init_def four_streams_def)
  have sid: "s_id ?e = 1"
    by (simp add: AmpliPiSource_init_def)
  have "AmpliPiSource_source_list ?e \<noteq> []"
    by (simp add: AmpliPiSource_source_list_def)
  then have "AmpliPiSource_source_list ?e = hd (AmpliPiSource_source_list ?e) # tl (AmpliPiSource_source_list ?e)"
    by simp
  also have "\<dots> = ''None'' # map strm_name (filter (\<lambda>s. 1000 \<le> strm_id s \<or> strm_id s = 996 + s_id ?e) (s_streams ?e))"
    using source_list_contents [of ?e] by simp
  also have "\<dots> = [''None'', ''AmpliPi Stream 997: Input 2'', ''AmpliPi Stream 1000: Radio'']"
    unfolding streams sid by (simp add: four_streams_def)
  finally show ?thesis .
qed


section \<open>Properties of the playback state\<close>

lemma source_state_unknown:
  "\<not> s_last_update_successful e \<Longrightarrow> AmpliPiSource_state e = STATE_UNKNOWN"
  by (simp add: AmpliPiSource_state_def)

lemma state_of_info_literals:
  "state_of_info ''playing'' = STATE_PLAYING"
  "state_of_info ''paused'' = STATE_PAUSED"
  "state_of_info ''stopped'' = STATE_IDLE"
  by (simp_all add: state_of_info_def)

text \<open>
  C1. A source whose info record reports the empty string as its state is synced by a
  successful poll. The empty string is none of \<^verbatim>\<open>playing\<close>, \<^verbatim>\<open>paused\<close>, \<^verbatim>\<open>stopped\<close>,
  yet the derived state is paused, not idle: \<^verbatim>\<open>'' in ('paused')\<close> is a substring test.
  The state \<^verbatim>\<open>play\<close> is likewise derived as playing.
\<close>

theorem source_state_substring_of_literal:
  "AmpliPiSource_state (snd (AmpliPiSource_async_update http_no_blank dec_int
      (AmpliPiSource_init (input_1 (Some [])) [radio] ''http://amplipi.local'')
      (Inr \<lparr>st_sources = [input_1 (Some [])], st_zones = [], st_groups = [],
             st_streams = [radio]\<rparr>))) = STATE_PAUSED
   \<and> AmpliPiSource_state (snd (AmpliPiSource_async_update http_no_blank dec_int
      (AmpliPiSource_init (input_1 (Some ''play'')) [radio] ''http://amplipi.local'')
      (Inr \<lparr>st_sources = [input_1 (Some ''play'')], st_zones = [], st_groups = [],
             st_streams = [radio]\<rparr>))) = STATE_PLAYING"
  by (simp add: AmpliPiSource_state_def AmpliPiSource_async_update_def AmpliPiSource_sync_state_def
      AmpliPiSource_init_def input_1_def info_with_state_def radio_def state_of_info_def
      dec_int_def Let_def eval_strings)

section \<open>Properties of the stream entity\<close>

lemma radio_entity_eq:
  "radio_entity = \<lparr>t_stream = Some (radio\<lparr>strm_name := ''AmpliPi Stream 1000: Radio''\<rparr>),
       t_current_source = None, t_current_zones = [], t_current_groups = [], t_sources = [],
       t_id = 1000, t_name = ''AmpliPi Stream 1000: Radio'',
       t_image_base_path = ''http://amplipi.local'', t_last_update_successful = False,
       t_available = False, t_extra_attributes = Stream_extra_unset, t_media = no_media\<rparr>"
  by (simp add: radio_entity_def AmpliPiStream_init_def radio_def eval_strings Let_def)

lemma adopt_free_none:
  "list_all (\<lambda>s. case s of None \<Rightarrow> True | Some src \<Rightarrow> \<not> input_free src) sources \<Longrightarrow>
     adopt_free cur sources = cur"
  by (induction sources arbitrary: cur) (auto split: option.splits)

lemma find_source_all_in_use:
  "t_current_source e = None \<Longrightarrow>
   list_all (\<lambda>s. case s of None \<Rightarrow> True | Some src \<Rightarrow> \<not> input_free src) sources \<Longrightarrow>
     AmpliPiStream_find_source e (Inr sources) = Inl AllSourcesInUse"
  by (simp add: AmpliPiStream_find_source_def adopt_free_none Let_def)

lemma find_source_keeps_current:
  "t_current_source e = Some cs \<Longrightarrow> AmpliPiStream_find_source e fetched = Inr e"
  by (simp add: AmpliPiStream_find_source_def)


text \<open>
  C3. A stream entity without a current source calls \<^verbatim>\<open>find_source\<close> while sources 0
  and 1 are both free. The docstring of \<^verbatim>\<open>find_source\<close> promises the first available
  source; the loop does not stop at it, and the entity ends up on source 1.
\<close>

theorem find_source_adopts_last_free_source:
  "AmpliPiStream_find_source radio_entity (Inr [Some (idle_source 0), Some (idle_source 1)]) =
     Inr (radio_entity\<lparr>t_current_source := Some (idle_source 1)\<rparr>)"
  by (simp add: AmpliPiStream_find_source_def radio_entity_eq input_free_def idle_source_def Let_def)

lemma find_present:
  "list_ex P xs \<Longrightarrow> \<exists>x. find P xs = Some x \<and> P x"
  by (induction xs) auto

lemma find_absent:
  "list_all (\<lambda>x. \<not> P x) xs \<Longrightarrow> find P xs = None"
  by (induction xs) auto

lemma stream_sync_state_fields:
  "t_current_source (AmpliPiStream_sync_state url_ok e s sources cs zones groups) = cs"
  "t_last_update_successful (AmpliPiStream_sync_state url_ok e s sources cs zones groups)"
  "t_available (AmpliPiStream_sync_state url_ok e s sources cs zones groups) = t_available e"
  "t_stream (AmpliPiStream_sync_state url_ok e s sources cs zones groups) =
     Some (hd (process_stream_names [s]))"
  by (simp_all add: AmpliPiStream_sync_state_def Let_def split: option.splits)

lemma stream_init_holds_record: "t_stream (AmpliPiStream_init stream sources base) \<noteq> None"
  by (simp add: AmpliPiStream_init_def Let_def)

lemma stream_update_keeps_record:
  "t_stream e \<noteq> None \<Longrightarrow> t_stream (snd (AmpliPiStream_async_update url_ok e fetched)) \<noteq> None"
  by (cases fetched)
     (simp_all add: AmpliPiStream_async_update_def AmpliPiStream_get_extra_attributes_def Let_def
        stream_sync_state_fields split: option.splits)

lemma stream_update_unattached:
  assumes present: "find (\<lambda>s. strm_id s = t_id e) (st_streams status) = Some s"
      and unattached: "find (\<lambda>src. src_input src = Some (''stream='' @ str_int (strm_id s)))
                         (st_sources status) = None"
  shows "AmpliPiStream_async_update url_ok e (Inr status) =
           (None, AmpliPiStream_sync_state url_ok
              ((AmpliPiStream_get_extra_attributes e)\<lparr>t_available :=
                  AmpliPiStream_update_available (AmpliPiStream_get_extra_attributes e)\<rparr>)
              s (st_sources status) None [] [])"
  using present unattached by (simp add: AmpliPiStream_async_update_def Let_def)

text \<open>
  C4. A stream entity holds its stream record, the snapshot contains a stream with the
  entity's id, and no source of the snapshot has the input \<^verbatim>\<open>stream={id}\<close>. Then the
  update ends without an exception, the state is idle, the current source is absent and
  the entity is available.
\<close>

theorem stream_without_source_idle_and_available:
  assumes held: "t_stream e \<noteq> None"
      and present: "list_ex (\<lambda>s. strm_id s = t_id e) (st_streams status)"
      and unattached: "list_all (\<lambda>src. src_input src \<noteq> Some (''stream='' @ str_int (t_id e)))
                         (st_sources status)"
  shows "fst (AmpliPiStream_async_update url_ok e (Inr status)) = None
     \<and> AmpliPiStream_state (snd (AmpliPiStream_async_update url_ok e (Inr status))) = STATE_IDLE
     \<and> t_current_source (snd (AmpliPiStream_async_update url_ok e (Inr status))) = None
     \<and> AmpliPiStream_available (snd (AmpliPiStream_async_update url_ok e (Inr status)))"
proof -
  from present obtain s where s: "find (\<lambda>s. strm_id s = t_id e) (st_streams status) = Some s"
    and sid: "strm_id s = t_id e"
    using find_present [of "\<lambda>s. strm_id s = t_id e" "st_streams status"] by blast
  have none: "find (\<lambda>src. src_input src = Some (''stream='' @ str_int (strm_id s)))
                (st_sources status) = None"
    using unattached sid by (simp add: find_absent)
  note upd = stream_update_unattached [OF s none, of url_ok]
  have avail: "AmpliPiStream_update_available (AmpliPiStream_get_extra_attributes e)"
    using held
    by (simp add: AmpliPiStream_update_available_def AmpliPiStream_get_extra_attributes_def
        split: option.splits)
  show ?thesis
    unfolding upd
    by (simp add: AmpliPiStream_state_def AmpliPiStream_available_def stream_sync_state_fields avail)
qed

theorem stream_without_source_idle_and_available_witness:
  "fst (AmpliPiStream_async_update http_no_blank radio_entity (Inr status_unattached)) = None
   \<and> AmpliPiStream_state (snd (AmpliPiStream_async_update http_no_blank radio_entity
        (Inr status_unattached))) = STATE_IDLE
   \<and> t_current_source (snd (AmpliPiStream_async_update http_no_blank radio_entity
        (Inr status_unattached))) = None
   \<and> AmpliPiStream_available (snd (AmpliPiStream_async_update http_no_blank radio_entity
        (Inr status_unattached)))"
proof -
  have held: "t_stream radio_entity \<noteq> None"
    by (simp add: radio_entity_eq)
  have present: "list_ex (\<lambda>s. strm_id s = t_id radio_entity) (st_streams status_unattached)"
    by (simp add: radio_entity_eq status_unattached_def radio_def)
  have unattached: "list_all (\<lambda>src. src_input src \<noteq> Some (''stream='' @ str_int (t_id radio_entity)))
      (st_sources status_unattached)"
    by (simp add: radio_entity_eq status_unattached_def local_source_def)
  show ?thesis
    by (rule stream_without_source_idle_and_available [OF held present unattached])
qed

lemma playing_entity_eq:
  "AmpliPiStream_async_update http_no_blank radio_entity (Inr status_playing) =
     (None, radio_entity\<lparr>t_current_source := Some (input_1 (Some ''playing'')),
        t_sources := [input_1 (Some ''playing'')],
        t_last_update_successful := True, t_available := True,
        t_extra_attributes := Amplipi_source_id None\<rparr>)"
  by (simp add: AmpliPiStream_async_update_def AmpliPiStream_sync_state_def
      AmpliPiStream_get_extra_attributes_def AmpliPiStream_update_available_def
      radio_entity_eq status_playing_def input_1_def info_with_state_def radio_def no_media_def
      build_url_def eval_strings Let_def)

text \<open>
  C9. A stream entity is synced while its stream plays on a source, then polled with a
  snapshot that no longer lists the stream. The update does not clear the flag and
  return: it rewrites the extra attributes and leaves with \<^verbatim>\<open>UnboundLocalError\<close>, and the
  entity still reports playing. On a newly built entity the same snapshot also turns
  the availability from false to true.
\<close>

theorem stream_update_with_stream_gone_raises:
  "AmpliPiStream_async_update http_no_blank
      (snd (AmpliPiStream_async_update http_no_blank radio_entity (Inr status_playing)))
      (Inr status_stream_gone) =
     (Some UnboundLocalError,
      (snd (AmpliPiStream_async_update http_no_blank radio_entity (Inr status_playing)))
        \<lparr>t_extra_attributes := Amplipi_source_id (Some 0)\<rparr>)
   \<and> AmpliPiStream_state (snd (AmpliPiStream_async_update http_no_blank
        (snd (AmpliPiStream_async_update http_no_blank radio_entity (Inr status_playing)))
        (Inr status_stream_gone))) = STATE_PLAYING
   \<and> \<not> t_available radio_entity
   \<and> AmpliPiStream_async_update http_no_blank radio_entity (Inr status_stream_gone) =
       (Some UnboundLocalError,
        radio_entity\<lparr>t_available := True, t_extra_attributes := Amplipi_source_id None\<rparr>)"
  unfolding playing_entity_eq
  by (simp add: AmpliPiStream_async_update_def AmpliPiStream_state_def
      AmpliPiStream_get_extra_attributes_def AmpliPiStream_update_available_def
      radio_entity_eq status_stream_gone_def input_1_def info_with_state_def state_of_info_def
      Let_def)

section \<open>Properties of the zone and group entity\<close>

lemma kitchen_entity_eq:
  "kitchen_entity =
     \<lparr>z_current_source = None, z_sources = [], z_is_group = False, z_id = 0, z_name = ''Kitchen'',
      z_streams = [], z_image_base_path = ''http://amplipi.local'', z_zone = Some (kitchen False),
      z_group = None, z_enabled = False, z_last_update_successful = False, z_available = False,
      z_extra_attributes = Zone_extra_unset, z_current_stream = None, z_media = no_media\<rparr>"
  by (simp add: kitchen_entity_def AmpliPiZone_init_def kitchen_def Let_def)


lemma kitchen_update_eq:
  "AmpliPiZone_async_update http_no_blank dec_int kitchen_entity
      (Inr (zones_status [kitchen True])) (Inr (zones_status [kitchen True]))
      (Inr (zones_status [kitchen True])) =
     (None, kitchen_entity\<lparr>z_zone := Some (kitchen True), z_last_update_successful := True,
        z_available := True, z_extra_attributes := Amplipi_zone_id 0\<rparr>)"
  by (simp add: AmpliPiZone_async_update_def AmpliPiZone_sync_state_def
      AmpliPiZone_get_extra_attributes_def AmpliPiZone_update_available_def AmpliPiZone_set_media_def
      kitchen_entity_eq zones_status_def kitchen_def no_media_def Let_def)






lemma zone_set_media_available [simp]:
  "z_available (AmpliPiZone_set_media url_ok e info) = z_available e"
  by (simp add: AmpliPiZone_set_media_def split: option.splits)














text \<open>
  \<^verbatim>\<open>async_update\<close> calls \<^verbatim>\<open>_update_available\<close> before \<^verbatim>\<open>sync_state\<close>, so the
  availability it stores is that of the zone record held since the previous update:
  when the fetched zone has just become disabled, the entity holds the disabled zone
  and still reports itself available.
\<close>

lemma zone_update_reads_held_record:
  "z_zone (snd (AmpliPiZone_async_update http_no_blank dec_int kitchen_entity
        (Inr (zones_status [kitchen True])) (Inr (zones_status [kitchen True]))
        (Inr (zones_status [kitchen True])))) = Some (kitchen True)
   \<and> zone_disabled (kitchen True)
   \<and> AmpliPiZone_available (snd (AmpliPiZone_async_update http_no_blank dec_int kitchen_entity
        (Inr (zones_status [kitchen True])) (Inr (zones_status [kitchen True]))
        (Inr (zones_status [kitchen True]))))"
  unfolding kitchen_update_eq
  by (simp add: kitchen_entity_eq AmpliPiZone_available_def kitchen_def)

end
